theory Spec2Isabelle
  imports Main
begin

section \<open>The local job runner of the task service (package tasks, LocalJob)\<close>

text \<open>
  The development embeds the methods of \<open>LocalJob\<close>: \<open>Kill\<close>, the two builders of the
  extra variables, \<open>getEnvironmentENV\<close>, \<open>getPlaybookArgs\<close>, \<open>Run\<close>, \<open>prepareRun\<close>,
  \<open>updateRepository\<close>, \<open>checkoutRepository\<close> and \<open>installVaultKeyFile\<close>.

  Everything the methods call outside their own file (the JSON codec, the file system, the
  git client, the application runner, the key installer) is a field of the record \<open>World\<close>:
  the answer that collaborator gives. Every call that has an effect is written to a trace
  of events, so that "is invoked", "exactly once" and "before" are statements about a list.
\<close>

subsection \<open>Go values\<close>

text \<open>
  A Go \<open>error\<close>: the text \<open>err.Error()\<close> returns, and whether \<open>os.IsNotExist\<close> holds of it.
\<close>

datatype error = GoError (Error: string) (IsNotExist: bool)

text \<open>\<open>fmt.Errorf\<close> with a constant format: a plain error, never a not-exist one.\<close>

definition Errorf :: "string \<Rightarrow> error" where
  "Errorf msg = GoError msg False"

text \<open>A call either returns a value or panics with a message.\<close>

datatype 'a outcome = Returned 'a | Panicked string

text \<open>\<open>db.TemplateType\<close>, \<open>db.TemplateApp\<close>, \<open>db.InventoryType\<close>, \<open>db.AccessKeyType\<close> and
  \<open>db.RepositoryType\<close> are string types with named constants; the constants the code compares
  with are constructors, any other stored string is the last constructor.\<close>

datatype TemplateType = TemplateTask | TemplateBuild | TemplateDeploy | TemplateTypeOther string

datatype TemplateApp = TemplateAnsible | TemplateAppOther string

datatype InventoryType = InventoryFile | InventoryStatic | InventoryStaticYaml
  | InventoryTypeOther string

datatype AccessKeyType = AccessKeySSH | AccessKeyNone | AccessKeyLoginPassword
  | AccessKeyTypeOther string

datatype RepositoryType = RepositoryLocal | RepositoryTypeOther string

datatype AccessKeyRole = AccessKeyRoleAnsibleUser | AccessKeyRoleAnsibleBecomeUser
  | AccessKeyRoleAnsiblePasswordVault

datatype TaskStatus = TaskRunningStatus | TaskStatusOther string

text \<open>
  What a \<open>map[string]interface{}\<close> of the code holds: the values \<open>json.Unmarshal\<close> stores
  (nil, bool, float64 as mantissa and exponent, string, slice, map) and the typed values
  the builders store themselves (an int, a \<open>*string\<close>, a \<open>db.TemplateType\<close>).
\<close>

datatype gvalue =
    GNil
  | GBool bool
  | GFloat64 int int
  | GString string
  | GInt int
  | GStringPtr "string option"
  | GTemplateType TemplateType
  | GSlice "gvalue list"
  | GMap "string \<Rightarrow> gvalue option"

type_synonym gmap = "string \<Rightarrow> gvalue option"

subsection \<open>The records of package db that the job reads\<close>

record Task =
  Task_ID :: int
  Task_Playbook :: string
  Task_CommitHash :: "string option"
  Task_Message :: string
  Task_Version :: "string option"
  Task_Arguments :: "string option"
  Task_DryRun :: bool
  Task_Debug :: bool
  Task_Diff :: bool
  Task_Limit :: string

record SshKey =
  SshKey_Login :: string

record AccessKey =
  AccessKey_Type :: AccessKeyType
  AccessKey_SshKey :: SshKey

record Template =
  Template_ID :: int
  Template_App :: TemplateApp
  Template_Type :: TemplateType
  Template_Playbook :: string
  Template_Arguments :: "string option"
  Template_AllowOverrideArgsInTask :: bool
  Template_VaultKeyID :: "int option"
  Template_VaultKey :: AccessKey

record Inventory =
  Inventory_Type :: InventoryType
  Inventory_Inventory :: string
  Inventory_SSHKeyID :: "int option"
  Inventory_SSHKey :: AccessKey
  Inventory_BecomeKeyID :: "int option"
  Inventory_BecomeKey :: AccessKey

record Repository =
  Repository_GitURL :: string

record Environment =
  Environment_JSON :: string
  Environment_ENV :: "string option"

text \<open>
  Modelled from the spec: \<open>db.AccessKeyInstallation\<close> is declared outside the source tree.
  The spec gives it "a filesystem path and/or an agent socket address": \<open>GetPath\<close> is the
  path, \<open>SshAgent\<close> the agent (a pointer in the code, which reads
  \<open>sshKeyInstallation.SshAgent.SocketFile\<close>), \<open>None\<close> when there is no agent.
\<close>

record SshAgent =
  SocketFile :: string

record AccessKeyInstallation =
  GetPath :: string
  SshAgent :: "SshAgent option"

text \<open>The zero value of the struct, which the installation fields hold before any install.\<close>

definition noInstallation :: AccessKeyInstallation where
  "noInstallation = \<lparr>GetPath = [], SshAgent = None\<rparr>"

text \<open>\<open>LocalJob\<close>. \<open>Process\<close> is the \<open>*os.Process\<close>: \<open>None\<close> is nil, \<open>Some p\<close> the process
  with handle \<open>p\<close>. The logger and the application are collaborators: see \<open>World\<close>.\<close>

record LocalJob =
  Task :: Task
  Template :: Template
  Inventory :: Inventory
  Repository :: Repository
  Environment :: Environment
  Process :: "nat option"
  sshKeyInstallation :: AccessKeyInstallation
  becomeKeyInstallation :: AccessKeyInstallation
  vaultFileInstallation :: AccessKeyInstallation

subsection \<open>The collaborators\<close>

text \<open>
  What \<open>installInventory\<close> (a method of \<open>LocalJob\<close> in another file of the package) leaves
  behind: the installations it stored in \<open>sshKeyInstallation\<close> and \<open>becomeKeyInstallation\<close>
  (\<open>None\<close>: that field was not assigned) and the error it returned.
\<close>

record InstallInventoryResult =
  installedSSHKey :: "AccessKeyInstallation option"
  installedBecomeKey :: "AccessKeyInstallation option"
  installInventoryErr :: "error option"

text \<open>
  The answers of the world outside the file.
  \<^item> \<open>json_Unmarshal_object\<close>: \<open>json.Unmarshal\<close> into a \<open>map[string]interface{}\<close>; an error, or the
    map it leaves in the variable. The JSON text \<open>null\<close> sets a map to nil: \<open>Inr None\<close>.
  \<^item> \<open>json_Unmarshal_strings\<close>: \<open>json.Unmarshal\<close> into a \<open>[]string\<close>.
  \<^item> \<open>json_Unmarshal_stringMap\<close>: \<open>json.Unmarshal\<close> into a \<open>map[string]string\<close>, as the list of
    pairs in the order \<open>range\<close> visits them.
  \<^item> \<open>json_Marshal\<close>: \<open>json.Marshal\<close> of a \<open>map[string]interface{}\<close>.
  \<^item> \<open>TmpPath\<close>: \<open>util.Config.TmpPath\<close>.
  \<^item> \<open>ValidateRepo_update\<close>, \<open>ValidateRepo_checkout\<close>: what \<open>repo.ValidateRepo()\<close> answers in
    \<open>updateRepository\<close> and, later, in \<open>checkoutRepository\<close>.
  \<^item> \<open>App_Run\<close>: the process the application starts (handed to the callback) and the error
    \<open>App.Run\<close> returns.
\<close>

record World =
  TmpPath :: string
  json_Unmarshal_object :: "string \<Rightarrow> error + gmap option"
  json_Unmarshal_strings :: "string \<Rightarrow> error + string list"
  json_Unmarshal_stringMap :: "string \<Rightarrow> error + (string \<times> string) list"
  json_Marshal :: "gmap \<Rightarrow> error + string"
  checkTmpDir :: "string \<Rightarrow> error option"
  os_Stat :: "string \<Rightarrow> error option"
  Repository_GetType :: "Repository \<Rightarrow> RepositoryType"
  ValidateRepo_update :: "error option"
  ValidateRepo_checkout :: "error option"
  CanBePulled :: bool
  Pull :: "error option"
  os_RemoveAll :: "error option"
  Clone :: "error option"
  Checkout :: "string \<Rightarrow> error option"
  installInventory :: InstallInventoryResult
  InstallRequirements :: "error option"
  VaultKey_Install :: "AccessKeyInstallation \<times> error option"
  App_Run :: "string list \<Rightarrow> string list \<Rightarrow> nat option \<times> error option"
  Process_Kill :: "nat \<Rightarrow> error option"

text \<open>The effects of a call, in the order they happen.\<close>

datatype event =
    EvSetStatus TaskStatus
  | EvLog string
  | EvCheckTmpDir string
  | EvStat string
  | EvValidateRepo
  | EvCanBePulled
  | EvPull
  | EvRemoveAll
  | EvClone
  | EvCheckout string
  | EvInstallInventory
  | EvInstallRequirements
  | EvInstallKey AccessKeyRole
  | EvDestroyKeys
  | EvAppRun "string list" "string list"
  | EvProcessKill nat

subsection \<open>strconv.Itoa\<close>

definition digit :: "nat \<Rightarrow> char" where
  "digit d = ''0123456789'' ! d"

function decimal :: "nat \<Rightarrow> string" where
  "decimal n = (if n < 10 then [digit n] else decimal (n div 10) @ [digit (n mod 10)])"
  by pat_completeness auto
termination
  by (relation "measure id") auto

declare decimal.simps [simp del]

definition Itoa :: "int \<Rightarrow> string" where
  "Itoa i = (if i < 0 then CHR ''-'' # decimal (nat (- i)) else decimal (nat i))"

subsection \<open>Kill\<close>

definition Kill :: "World \<Rightarrow> LocalJob \<Rightarrow> LocalJob \<times> event list" where
  "Kill w t =
     (case Process t of
        None \<Rightarrow> (t, [])
      | Some p \<Rightarrow>
          (case Process_Kill w p of
             None \<Rightarrow> (t, [EvProcessKill p])
           | Some err \<Rightarrow> (t, [EvProcessKill p, EvLog (Error err)])))"

subsection \<open>The extra variables\<close>

text \<open>
  Both builders return the error of \<open>json.Unmarshal\<close> as \<open>Inl\<close>. When the unmarshalled map
  is nil, the assignment \<open>extraVars["semaphore_vars"] = vars\<close> panics.
\<close>

definition getEnvironmentExtraVars ::
  "World \<Rightarrow> LocalJob \<Rightarrow> string \<Rightarrow> string option \<Rightarrow> (error + gmap) outcome" where
  "getEnvironmentExtraVars w t username incomingVersion =
     (case (if Environment_JSON (Environment t) \<noteq> []
            then json_Unmarshal_object w (Environment_JSON (Environment t))
            else Inr (Some Map.empty)) of
        Inl err \<Rightarrow> Returned (Inl err)
      | Inr extraVars \<Rightarrow>
          let taskDetails = Map.empty(''id'' \<mapsto> GInt (Task_ID (Task t)));
              taskDetails =
                (if Task_Message (Task t) \<noteq> []
                 then taskDetails(''message'' \<mapsto> GString (Task_Message (Task t)))
                 else taskDetails);
              taskDetails = taskDetails(''username'' \<mapsto> GString username);
              taskDetails =
                (if Template_Type (Template t) \<noteq> TemplateTask
                 then
                   let taskDetails =
                         taskDetails(''type'' \<mapsto> GTemplateType (Template_Type (Template t)));
                       taskDetails =
                         (if incomingVersion \<noteq> None
                          then taskDetails(''incoming_version'' \<mapsto> GStringPtr incomingVersion)
                          else taskDetails)
                   in if Template_Type (Template t) = TemplateBuild
                      then taskDetails(''target_version'' \<mapsto> GStringPtr (Task_Version (Task t)))
                      else taskDetails
                 else taskDetails);
              vars = Map.empty(''task_details'' \<mapsto> GMap taskDetails)
          in (case extraVars of
                None \<Rightarrow> Panicked ''assignment to entry in nil map''
              | Some m \<Rightarrow> Returned (Inr (m(''semaphore_vars'' \<mapsto> GMap vars)))))"

definition getEnvironmentExtraVarsJSON ::
  "World \<Rightarrow> LocalJob \<Rightarrow> string \<Rightarrow> string option \<Rightarrow> (error + string) outcome" where
  "getEnvironmentExtraVarsJSON w t username incomingVersion =
     (case (if Environment_JSON (Environment t) \<noteq> []
            then json_Unmarshal_object w (Environment_JSON (Environment t))
            else Inr (Some Map.empty)) of
        Inl err \<Rightarrow> Returned (Inl err)
      | Inr extraVars \<Rightarrow>
          let taskDetails = Map.empty(''id'' \<mapsto> GInt (Task_ID (Task t)));
              taskDetails =
                (if Task_Message (Task t) \<noteq> []
                 then taskDetails(''message'' \<mapsto> GString (Task_Message (Task t)))
                 else taskDetails);
              taskDetails = taskDetails(''username'' \<mapsto> GString username);
              taskDetails =
                (if Template_Type (Template t) \<noteq> TemplateTask
                 then
                   let taskDetails =
                         taskDetails(''type'' \<mapsto> GTemplateType (Template_Type (Template t)));
                       taskDetails =
                         (if incomingVersion \<noteq> None
                          then taskDetails(''incoming_version'' \<mapsto> GStringPtr incomingVersion)
                          else taskDetails)
                   in if Template_Type (Template t) = TemplateBuild
                      then taskDetails(''target_version'' \<mapsto> GStringPtr (Task_Version (Task t)))
                      else taskDetails
                 else taskDetails);
              vars = Map.empty(''task_details'' \<mapsto> GMap taskDetails)
          in (case extraVars of
                None \<Rightarrow> Panicked ''assignment to entry in nil map''
              | Some m \<Rightarrow>
                  (case json_Marshal w (m(''semaphore_vars'' \<mapsto> GMap vars)) of
                     Inl err \<Rightarrow> Returned (Inl err)
                   | Inr ev \<Rightarrow> Returned (Inr ev))))"

subsection \<open>getEnvironmentENV\<close>

definition getEnvironmentENV :: "World \<Rightarrow> LocalJob \<Rightarrow> error + string list" where
  "getEnvironmentENV w t =
     (case Environment_ENV (Environment t) of
        None \<Rightarrow> Inr []
      | Some env \<Rightarrow>
          (case json_Unmarshal_stringMap w env of
             Inl err \<Rightarrow> Inl err
           | Inr environmentVars \<Rightarrow>
               Inr (map (\<lambda>(key, val). key @ ''='' @ val) environmentVars)))"

subsection \<open>getPlaybookArgs\<close>

text \<open>The switch on \<open>t.Inventory.Type\<close> (lines 184 to 196): the inventory argument, or the
  error of the default branch.\<close>

definition inventoryArg :: "World \<Rightarrow> LocalJob \<Rightarrow> error + string" where
  "inventoryArg w t =
     (case Inventory_Type (Inventory t) of
        InventoryFile \<Rightarrow> Inr (Inventory_Inventory (Inventory t))
      | InventoryTypeOther other \<Rightarrow> Inl (Errorf ''invalid invetory type'')
      | _ \<Rightarrow>
          let inventory = TmpPath w @ ''/inventory_'' @ Itoa (Task_ID (Task t))
          in Inr (if Inventory_Type (Inventory t) = InventoryStaticYaml
                  then inventory @ ''.yml'' else inventory))"

text \<open>The block on \<open>t.Inventory.SSHKeyID\<close> (lines 202 to 216): the arguments after it and
  the error of its default branch.\<close>

definition sshKeyArgs :: "LocalJob \<Rightarrow> string list \<Rightarrow> string list \<times> error option" where
  "sshKeyArgs t args =
     (if Inventory_SSHKeyID (Inventory t) \<noteq> None
      then
        (case AccessKey_Type (Inventory_SSHKey (Inventory t)) of
           AccessKeySSH \<Rightarrow>
             (if SshKey_Login (AccessKey_SshKey (Inventory_SSHKey (Inventory t))) \<noteq> []
              then (args @ [''--extra-vars={\"ansible_user\": \"''
                            @ SshKey_Login (AccessKey_SshKey (Inventory_SSHKey (Inventory t)))
                            @ ''\"}''], None)
              else (args, None))
         | AccessKeyLoginPassword \<Rightarrow>
             (args @ [''--extra-vars=@'' @ GetPath (sshKeyInstallation t)], None)
         | AccessKeyNone \<Rightarrow> (args, None)
         | AccessKeyTypeOther other \<Rightarrow>
             (args, Some (Errorf ''access key does not suite for inventory's user credentials'')))
      else (args, None))"

text \<open>The block on \<open>t.Inventory.BecomeKeyID\<close> (lines 218 to 227). An SSH key falls into the
  default branch here.\<close>

definition becomeKeyArgs :: "LocalJob \<Rightarrow> string list \<Rightarrow> string list \<times> error option" where
  "becomeKeyArgs t args =
     (if Inventory_BecomeKeyID (Inventory t) \<noteq> None
      then
        (case AccessKey_Type (Inventory_BecomeKey (Inventory t)) of
           AccessKeyLoginPassword \<Rightarrow>
             (args @ [''--extra-vars=@'' @ GetPath (becomeKeyInstallation t)], None)
         | AccessKeyNone \<Rightarrow> (args, None)
         | _ \<Rightarrow>
             (args,
              Some (Errorf ''access key does not suite for inventory's sudo user credentials'')))
      else (args, None))"

text \<open>
  The result is the pair of the named results \<open>(args, err)\<close> as they stand at the return,
  with the lines logged. \<open>err\<close> is one variable for the whole body: the short declaration
  \<open>extraVars, err := ...\<close> assigns it, each \<open>json.Unmarshal\<close> that runs assigns it again,
  and the final \<open>return\<close> hands back what it holds.
\<close>

definition getPlaybookArgs ::
  "World \<Rightarrow> LocalJob \<Rightarrow> string \<Rightarrow> string option
     \<Rightarrow> (string list \<times> error option) outcome \<times> event list" where
  "getPlaybookArgs w t username incomingVersion =
     (let playbookName =
            (if Task_Playbook (Task t) = [] then Template_Playbook (Template t)
             else Task_Playbook (Task t))
      in (case inventoryArg w t of
            Inl err \<Rightarrow> (Returned ([], Some err), [])
          | Inr inventory \<Rightarrow>
      let args = [''-i'', inventory];
          (args, err) = sshKeyArgs t args
      in if err \<noteq> None then (Returned (args, err), []) else
      let (args, err) = becomeKeyArgs t args
      in if err \<noteq> None then (Returned (args, err), []) else
      let args = (if Task_Debug (Task t) then args @ [''-vvvv''] else args);
          args = (if Task_Diff (Task t) then args @ [''--diff''] else args);
          args = (if Task_DryRun (Task t) then args @ [''--check''] else args);
          args = (if Template_VaultKeyID (Template t) \<noteq> None
                  then args @ [''--vault-password-file'', GetPath (vaultFileInstallation t)]
                  else args)
      in (case getEnvironmentExtraVarsJSON w t username incomingVersion of
            Panicked p \<Rightarrow> (Panicked p, [])
          | Returned r \<Rightarrow>
      let (args, err, logs) =
            (case r of
               Inl e \<Rightarrow>
                 (args, Some e,
                  [EvLog (Error e),
                   EvLog ''Could not remove command environment, if existant it will be passed to --extra-vars. This is not fatal but be aware of side effects''])
             | Inr extraVars \<Rightarrow>
                 (if extraVars \<noteq> [] then args @ [''--extra-vars'', extraVars] else args,
                  None, []))
      in (case (case Template_Arguments (Template t) of
                  None \<Rightarrow> Inr ([], err)
                | Some a \<Rightarrow>
                    (case json_Unmarshal_strings w a of
                       Inl e \<Rightarrow> Inl e
                     | Inr xs \<Rightarrow> Inr (xs, None))) of
            Inl e \<Rightarrow>
              (Returned (args, Some e),
               logs @ [EvLog ''Invalid format of the template extra arguments, must be valid JSON''])
          | Inr (templateExtraArgs, err) \<Rightarrow>
      (case (if Template_AllowOverrideArgsInTask (Template t)
             then (case Task_Arguments (Task t) of
                     None \<Rightarrow> Inr ([], err)
                   | Some a \<Rightarrow>
                       (case json_Unmarshal_strings w a of
                          Inl e \<Rightarrow> Inl e
                        | Inr xs \<Rightarrow> Inr (xs, None)))
             else Inr ([], err)) of
         Inl e \<Rightarrow>
           (Returned (args, Some e),
            logs @ [EvLog ''Invalid format of the TaskRunner extra arguments, must be valid JSON''])
       | Inr (taskExtraArgs, err) \<Rightarrow>
      let (taskExtraArgs, logs) =
            (if Task_Limit (Task t) \<noteq> []
             then (taskExtraArgs @ [''--limit='' @ Task_Limit (Task t)],
                   logs @ [EvLog (''--limit='' @ Task_Limit (Task t))])
             else (taskExtraArgs, logs));
          args = args @ templateExtraArgs;
          args = args @ taskExtraArgs;
          args = args @ [playbookName]
      in (Returned (args, err), logs))))))"

subsection \<open>Synchronising the repository\<close>

text \<open>\<open>updateRepository\<close>: the error returned and the calls made on the repository.\<close>

definition updateRepository :: "World \<Rightarrow> LocalJob \<Rightarrow> error option \<times> event list" where
  "updateRepository w t =
     (case ValidateRepo_update w of
        Some err \<Rightarrow>
          (if \<not> IsNotExist err
           then (case os_RemoveAll w of
                   Some err' \<Rightarrow> (Some err', [EvValidateRepo, EvRemoveAll])
                 | None \<Rightarrow> (Clone w, [EvValidateRepo, EvRemoveAll, EvClone]))
           else (Clone w, [EvValidateRepo, EvClone]))
      | None \<Rightarrow>
          let (pulled, ev) =
                (if CanBePulled w
                 then (Pull w = None, [EvValidateRepo, EvCanBePulled, EvPull])
                 else (False, [EvValidateRepo, EvCanBePulled]))
          in if pulled then (None, ev)
             else (case os_RemoveAll w of
                     Some err \<Rightarrow> (Some err, ev @ [EvRemoveAll])
                   | None \<Rightarrow> (Clone w, ev @ [EvRemoveAll, EvClone])))"

definition checkoutRepository :: "World \<Rightarrow> LocalJob \<Rightarrow> error option \<times> event list" where
  "checkoutRepository w t =
     (case ValidateRepo_checkout w of
        Some err \<Rightarrow> (Some err, [EvValidateRepo])
      | None \<Rightarrow>
          (case Task_CommitHash (Task t) of
             Some commitHash \<Rightarrow> (Checkout w commitHash, [EvValidateRepo, EvCheckout commitHash])
           | None \<Rightarrow> (None, [EvValidateRepo])))"

subsection \<open>prepareRun\<close>

definition installVaultKeyFile ::
  "World \<Rightarrow> LocalJob \<Rightarrow> error option \<times> LocalJob \<times> event list" where
  "installVaultKeyFile w t =
     (if Template_VaultKeyID (Template t) = None then (None, t, [])
      else let (installation, err) = VaultKey_Install w
           in (err, t\<lparr>vaultFileInstallation := installation\<rparr>,
               [EvInstallKey AccessKeyRoleAnsiblePasswordVault]))"

text \<open>The call of \<open>installInventory\<close>: the fields it assigned, the installs it made and
  its error.\<close>

definition callInstallInventory ::
  "World \<Rightarrow> LocalJob \<Rightarrow> error option \<times> LocalJob \<times> event list" where
  "callInstallInventory w t =
     (let r = installInventory w;
          t = (case installedSSHKey r of
                 None \<Rightarrow> t | Some i \<Rightarrow> t\<lparr>sshKeyInstallation := i\<rparr>);
          t = (case installedBecomeKey r of
                 None \<Rightarrow> t | Some i \<Rightarrow> t\<lparr>becomeKeyInstallation := i\<rparr>)
      in (installInventoryErr r, t,
          [EvInstallInventory]
          @ (if installedSSHKey r \<noteq> None then [EvInstallKey AccessKeyRoleAnsibleUser] else [])
          @ (if installedBecomeKey r \<noteq> None then [EvInstallKey AccessKeyRoleAnsibleBecomeUser]
             else [])))"

text \<open>The repository step of \<open>prepareRun\<close> (lines 342 to 356), with the lines it logs.\<close>

definition prepareRepository :: "World \<Rightarrow> LocalJob \<Rightarrow> error option \<times> event list" where
  "prepareRepository w t =
     (if Repository_GetType w (Repository t) = RepositoryLocal
      then
        (case os_Stat w (Repository_GitURL (Repository t)) of
           Some err \<Rightarrow>
             (Some err,
              [EvStat (Repository_GitURL (Repository t)),
               EvLog (''Failed in finding static repository at ''
                      @ Repository_GitURL (Repository t) @ '': '' @ Error err)])
         | None \<Rightarrow> (None, [EvStat (Repository_GitURL (Repository t))]))
      else
        (case updateRepository w t of
           (Some err, ev) \<Rightarrow>
             (Some err, ev @ [EvLog (''Failed updating repository: '' @ Error err)])
         | (None, ev) \<Rightarrow>
             (case checkoutRepository w t of
                (Some err, ev') \<Rightarrow>
                  (Some err,
                   ev @ ev'
                   @ [EvLog (''Failed to checkout repository to required commit: '' @ Error err)])
              | (None, ev') \<Rightarrow> (None, ev @ ev'))))"

definition prepareRun :: "World \<Rightarrow> LocalJob \<Rightarrow> error option \<times> LocalJob \<times> event list" where
  "prepareRun w t =
     (let ev = [EvLog (''Preparing: '' @ Itoa (Task_ID (Task t))), EvCheckTmpDir (TmpPath w)]
      in (case checkTmpDir w (TmpPath w) of
            Some err \<Rightarrow> (Some err, t, ev @ [EvLog (''Creating tmp dir failed: '' @ Error err)])
          | None \<Rightarrow>
      let (err, ev') = prepareRepository w t;
          ev = ev @ ev'
      in if err \<noteq> None then (err, t, ev) else
      (case callInstallInventory w t of
         (Some err, t, ev') \<Rightarrow>
           (Some err, t, ev @ ev' @ [EvLog (''Failed to install inventory: '' @ Error err)])
       | (None, t, ev') \<Rightarrow>
      let ev = ev @ ev' @ [EvInstallRequirements]
      in (case InstallRequirements w of
            Some err \<Rightarrow> (Some err, t, ev @ [EvLog (''Running galaxy failed: '' @ Error err)])
          | None \<Rightarrow>
      (case installVaultKeyFile w t of
         (Some err, t, ev') \<Rightarrow>
           (Some err, t,
            ev @ ev' @ [EvLog (''Failed to install vault password file: '' @ Error err)])
       | (None, t, ev') \<Rightarrow> (None, t, ev @ ev'))))))"

subsection \<open>Run\<close>

text \<open>
  The body of \<open>Run\<close> below the \<open>defer\<close> (lines 296 to 330): how it leaves (a returned
  error, nil, or a panic), the job, and the events. Reading \<open>SshAgent.SocketFile\<close> through
  a nil agent panics.
\<close>

definition runApp ::
  "World \<Rightarrow> LocalJob \<Rightarrow> string \<Rightarrow> string option
     \<Rightarrow> error option outcome \<times> LocalJob \<times> event list" where
  "runApp w t username incomingVersion =
     (case Template_App (Template t) of
        TemplateAppOther other \<Rightarrow> (Panicked ''unknown template app'', t, [])
      | TemplateAnsible \<Rightarrow>
          (case getPlaybookArgs w t username incomingVersion of
             (Panicked p, logs) \<Rightarrow> (Panicked p, t, logs)
           | (Returned (args, err), logs) \<Rightarrow>
               if err \<noteq> None then (Returned err, t, logs) else
               (case getEnvironmentENV w t of
                  Inl err \<Rightarrow> (Returned (Some err), t, logs)
                | Inr environmentVariables \<Rightarrow>
                    (case (if AccessKey_Type (Inventory_SSHKey (Inventory t)) = AccessKeySSH
                              \<and> Inventory_SSHKeyID (Inventory t) \<noteq> None
                           then (case SshAgent (sshKeyInstallation t) of
                                   None \<Rightarrow> None
                                 | Some agent \<Rightarrow>
                                     Some (environmentVariables
                                           @ [''SSH_AUTH_SOCK='' @ SocketFile agent]))
                           else Some environmentVariables) of
                       None \<Rightarrow>
                         (Panicked ''invalid memory address or nil pointer dereference'', t, logs)
                     | Some environmentVariables \<Rightarrow>
                         let (p, err) = App_Run w args environmentVariables;
                             t = (case p of None \<Rightarrow> t | Some pr \<Rightarrow> t\<lparr>Process := Some pr\<rparr>)
                         in (Returned err, t, logs @ [EvAppRun args environmentVariables])))))"

text \<open>
  \<open>Run\<close>. When \<open>prepareRun\<close> fails, \<open>Run\<close> returns before the \<open>defer\<close> statement is
  reached. Below the \<open>defer\<close>, \<open>destroyKeys\<close> runs when the body returns or panics.
\<close>

definition Run ::
  "World \<Rightarrow> LocalJob \<Rightarrow> string \<Rightarrow> string option
     \<Rightarrow> error option outcome \<times> LocalJob \<times> event list" where
  "Run w t username incomingVersion =
     (let ev = [EvSetStatus TaskRunningStatus];
          (err, t, ev') = prepareRun w t;
          ev = ev @ ev'
      in if err \<noteq> None then (Returned err, t, ev)
         else let (r, t, ev') = runApp w t username incomingVersion
              in (r, t, ev @ ev' @ [EvDestroyKeys]))"

subsection \<open>The task details as the specification words them\<close>

text \<open>
  The object \<open>task_details\<close> key by key: \<open>id\<close> always; \<open>message\<close> only if not empty;
  \<open>username\<close> always; only when the template's type is not the plain task type, \<open>type\<close>
  and, if the caller supplied one, \<open>incoming_version\<close>; only for the build type,
  \<open>target_version\<close>, the task's version. No other key.
\<close>

definition taskDetailsSpec :: "LocalJob \<Rightarrow> string \<Rightarrow> string option \<Rightarrow> gmap" where
  "taskDetailsSpec t username incomingVersion =
     (\<lambda>key.
        if key = ''id'' then Some (GInt (Task_ID (Task t)))
        else if key = ''message''
          then (if Task_Message (Task t) = [] then None
                else Some (GString (Task_Message (Task t))))
        else if key = ''username'' then Some (GString username)
        else if key = ''type''
          then (if Template_Type (Template t) = TemplateTask then None
                else Some (GTemplateType (Template_Type (Template t))))
        else if key = ''incoming_version''
          then (if Template_Type (Template t) = TemplateTask then None
                else if incomingVersion = None then None
                else Some (GStringPtr incomingVersion))
        else if key = ''target_version''
          then (if Template_Type (Template t) = TemplateBuild
                then Some (GStringPtr (Task_Version (Task t))) else None)
        else None)"

subsection \<open>The argument vector as the specification orders it\<close>

text \<open>The extras of the inventory's login credential.\<close>

definition loginExtras :: "LocalJob \<Rightarrow> string list" where
  "loginExtras t =
     (if Inventory_SSHKeyID (Inventory t) = None then []
      else (case AccessKey_Type (Inventory_SSHKey (Inventory t)) of
              AccessKeySSH \<Rightarrow>
                (if SshKey_Login (AccessKey_SshKey (Inventory_SSHKey (Inventory t))) = []
                 then []
                 else [''--extra-vars={\"ansible_user\": \"''
                       @ SshKey_Login (AccessKey_SshKey (Inventory_SSHKey (Inventory t)))
                       @ ''\"}''])
            | AccessKeyLoginPassword \<Rightarrow> [''--extra-vars=@'' @ GetPath (sshKeyInstallation t)]
            | _ \<Rightarrow> []))"

text \<open>The extras of the inventory's become credential.\<close>

definition becomeExtras :: "LocalJob \<Rightarrow> string list" where
  "becomeExtras t =
     (if Inventory_BecomeKeyID (Inventory t) = None then []
      else (case AccessKey_Type (Inventory_BecomeKey (Inventory t)) of
              AccessKeyLoginPassword \<Rightarrow>
                [''--extra-vars=@'' @ GetPath (becomeKeyInstallation t)]
            | _ \<Rightarrow> []))"

text \<open>The flags of the task and the vault password file of the template.\<close>

definition flagArgs :: "LocalJob \<Rightarrow> string list" where
  "flagArgs t =
     (if Task_Debug (Task t) then [''-vvvv''] else [])
     @ (if Task_Diff (Task t) then [''--diff''] else [])
     @ (if Task_DryRun (Task t) then [''--check''] else [])
     @ (if Template_VaultKeyID (Template t) = None then []
        else [''--vault-password-file'', GetPath (vaultFileInstallation t)])"

text \<open>The merged extra variables, under their flag; nothing when they could not be built
  or are empty.\<close>

definition extraVarsArgs :: "World \<Rightarrow> LocalJob \<Rightarrow> string \<Rightarrow> string option \<Rightarrow> string list" where
  "extraVarsArgs w t username incomingVersion =
     (case getEnvironmentExtraVarsJSON w t username incomingVersion of
        Returned (Inr extraVars) \<Rightarrow>
          (if extraVars = [] then [] else [''--extra-vars'', extraVars])
      | _ \<Rightarrow> [])"

text \<open>A stored JSON array of arguments, parsed; nothing when none is stored.\<close>

definition parsedArguments :: "World \<Rightarrow> string option \<Rightarrow> string list" where
  "parsedArguments w stored =
     (case stored of
        None \<Rightarrow> []
      | Some a \<Rightarrow> (case json_Unmarshal_strings w a of Inl e \<Rightarrow> [] | Inr xs \<Rightarrow> xs))"

text \<open>The task-level set: the task's arguments only when the template allows the
  override, then the limit when the task has one.\<close>

definition taskLevelArgs :: "World \<Rightarrow> LocalJob \<Rightarrow> string list" where
  "taskLevelArgs w t =
     (if Template_AllowOverrideArgsInTask (Template t)
      then parsedArguments w (Task_Arguments (Task t)) else [])
     @ (if Task_Limit (Task t) = [] then [] else [''--limit='' @ Task_Limit (Task t)])"

text \<open>The playbook: the task's if it names one, else the template's.\<close>

definition resolvedPlaybook :: "LocalJob \<Rightarrow> string" where
  "resolvedPlaybook t =
     (if Task_Playbook (Task t) = [] then Template_Playbook (Template t)
      else Task_Playbook (Task t))"

subsection \<open>Reading a trace\<close>

text \<open>The calls on the repository and its directory: validation, the pull test, pull,
  removal, clone and checkout.\<close>

fun isRepositoryCall :: "event \<Rightarrow> bool" where
  "isRepositoryCall EvValidateRepo = True"
| "isRepositoryCall EvCanBePulled = True"
| "isRepositoryCall EvPull = True"
| "isRepositoryCall EvRemoveAll = True"
| "isRepositoryCall EvClone = True"
| "isRepositoryCall (EvCheckout commitHash) = True"
| "isRepositoryCall other = False"

text \<open>A working copy is present unless validation failed because nothing exists there.\<close>

definition workingCopyPresent :: "World \<Rightarrow> bool" where
  "workingCopyPresent w =
     (case ValidateRepo_update w of None \<Rightarrow> True | Some err \<Rightarrow> \<not> IsNotExist err)"

subsection \<open>Example inputs\<close>

text \<open>
  A world in which every collaborator succeeds: the codec knows three texts, the working
  copy validates, can be pulled and the pull succeeds, and the application starts process 7.
\<close>

definition exampleWorld :: World where
  "exampleWorld =
     \<lparr>TmpPath = ''/tmp/semaphore'',
      json_Unmarshal_object =
        (\<lambda>s. if s = ''{}'' then Inr (Some Map.empty)
             else if s = ''null'' then Inr None
             else Inl (GoError ''unexpected end of JSON input'' False)),
      json_Unmarshal_strings =
        (\<lambda>s. if s = ''[]'' then Inr []
             else if s = ''[\"--tags\",\"web\"]'' then Inr [''--tags'', ''web'']
             else Inl (GoError ''unexpected end of JSON input'' False)),
      json_Unmarshal_stringMap =
        (\<lambda>s. if s = ''{}'' then Inr []
             else Inl (GoError ''unexpected end of JSON input'' False)),
      json_Marshal = (\<lambda>m. Inr ''{\"semaphore_vars\":{\"task_details\":{}}}''),
      checkTmpDir = (\<lambda>path. None),
      os_Stat = (\<lambda>path. None),
      Repository_GetType =
        (\<lambda>r. case Repository_GitURL r of
                [] \<Rightarrow> RepositoryTypeOther ''git''
              | c # cs \<Rightarrow> if c = CHR ''/'' then RepositoryLocal else RepositoryTypeOther ''git''),
      ValidateRepo_update = None,
      ValidateRepo_checkout = None,
      CanBePulled = True,
      Pull = None,
      os_RemoveAll = None,
      Clone = None,
      Checkout = (\<lambda>commitHash. None),
      installInventory =
        \<lparr>installedSSHKey = None, installedBecomeKey = None, installInventoryErr = None\<rparr>,
      InstallRequirements = None,
      VaultKey_Install = (\<lparr>GetPath = ''/tmp/semaphore/access_key_3'', SshAgent = None\<rparr>, None),
      App_Run = (\<lambda>args env. (Some 7, None)),
      Process_Kill = (\<lambda>p. None)\<rparr>"

text \<open>Task 42 with the limit \<open>web*\<close>, a template that lets the task override its
  arguments, a static YAML inventory without keys, a remote repository.\<close>

definition exampleJob :: LocalJob where
  "exampleJob =
     \<lparr>Task =
        \<lparr>Task_ID = 42, Task_Playbook = [], Task_CommitHash = None, Task_Message = ''deploy'',
         Task_Version = Some ''1.2'', Task_Arguments = Some ''[\"--tags\",\"web\"]'',
         Task_DryRun = True, Task_Debug = False, Task_Diff = True, Task_Limit = ''web*''\<rparr>,
      Template =
        \<lparr>Template_ID = 5, Template_App = TemplateAnsible, Template_Type = TemplateBuild,
         Template_Playbook = ''site.yml'', Template_Arguments = None,
         Template_AllowOverrideArgsInTask = True, Template_VaultKeyID = None,
         Template_VaultKey =
           \<lparr>AccessKey_Type = AccessKeyNone, AccessKey_SshKey = \<lparr>SshKey_Login = []\<rparr>\<rparr>\<rparr>,
      Inventory =
        \<lparr>Inventory_Type = InventoryStaticYaml, Inventory_Inventory = ''all:'',
         Inventory_SSHKeyID = None,
         Inventory_SSHKey =
           \<lparr>AccessKey_Type = AccessKeyNone, AccessKey_SshKey = \<lparr>SshKey_Login = []\<rparr>\<rparr>,
         Inventory_BecomeKeyID = None,
         Inventory_BecomeKey =
           \<lparr>AccessKey_Type = AccessKeyNone, AccessKey_SshKey = \<lparr>SshKey_Login = []\<rparr>\<rparr>\<rparr>,
      Repository = \<lparr>Repository_GitURL = ''https://example.com/playbooks.git''\<rparr>,
      Environment = \<lparr>Environment_JSON = ''{}'', Environment_ENV = None\<rparr>,
      Process = None,
      sshKeyInstallation = noInstallation,
      becomeKeyInstallation = noInstallation,
      vaultFileInstallation = noInstallation\<rparr>"

text \<open>The working copy does not validate and the directory cannot be removed.\<close>

definition staleWorld :: World where
  "staleWorld =
     exampleWorld
       \<lparr>ValidateRepo_update := Some (GoError ''remote url mismatch'' False),
        os_RemoveAll := Some (GoError ''permission denied'' False)\<rparr>"

text \<open>The process is gone when \<open>Kill\<close> is called.\<close>

definition finishedWorld :: World where
  "finishedWorld =
     exampleWorld\<lparr>Process_Kill := (\<lambda>p. Some (GoError ''os: process already finished'' False))\<rparr>"

text \<open>A job whose repository is a directory of the host.\<close>

definition localJob :: LocalJob where
  "localJob = exampleJob\<lparr>Repository := \<lparr>Repository_GitURL = ''/srv/playbooks''\<rparr>\<rparr>"

text \<open>The directory of the repository is missing.\<close>

definition missingDirWorld :: World where
  "missingDirWorld =
     exampleWorld
       \<lparr>os_Stat := (\<lambda>path. Some (GoError ''stat /srv/playbooks: no such file or directory'' True))\<rparr>"

text \<open>A job whose inventory is of a kind the argument builder does not know.\<close>

definition unknownInventoryJob :: LocalJob where
  "unknownInventoryJob =
     exampleJob\<lparr>Inventory := (Inventory exampleJob)\<lparr>Inventory_Type := InventoryTypeOther ''none''\<rparr>\<rparr>"

text \<open>A job whose environment holds a malformed JSON text, and no stored arguments.\<close>

definition malformedEnvJob :: LocalJob where
  "malformedEnvJob =
     exampleJob
       \<lparr>Task := (Task exampleJob)\<lparr>Task_Arguments := None\<rparr>,
        Environment := \<lparr>Environment_JSON = ''{'', Environment_ENV = None\<rparr>\<rparr>"

text \<open>A job whose template names an application other than Ansible.\<close>

definition unsupportedAppJob :: LocalJob where
  "unsupportedAppJob =
     exampleJob\<lparr>Template := (Template exampleJob)\<lparr>Template_App := TemplateAppOther ''terraform''\<rparr>\<rparr>"

text \<open>A job whose inventory logs in with an SSH key.\<close>

definition sshKeyJob :: LocalJob where
  "sshKeyJob =
     exampleJob
       \<lparr>Inventory :=
          (Inventory exampleJob)
            \<lparr>Inventory_SSHKeyID := Some 1,
             Inventory_SSHKey :=
               \<lparr>AccessKey_Type = AccessKeySSH, AccessKey_SshKey = \<lparr>SshKey_Login = ''deploy''\<rparr>\<rparr>\<rparr>\<rparr>"

text \<open>\<open>installInventory\<close> installs the SSH key, then installing the requirements fails.\<close>

definition requirementsFailWorld :: World where
  "requirementsFailWorld =
     exampleWorld
       \<lparr>installInventory :=
          \<lparr>installedSSHKey =
             Some \<lparr>GetPath = ''/tmp/semaphore/access_key_1'',
                   SshAgent = Some \<lparr>SocketFile = ''/tmp/semaphore/ssh-agent-1.sock''\<rparr>\<rparr>,
           installedBecomeKey = None, installInventoryErr = None\<rparr>,
        InstallRequirements := Some (GoError ''exit status 1'' False)\<rparr>"

section \<open>Properties\<close>

subsection \<open>The extra variables\<close>

lemma Returned_sum_case:
  "(case x of Inl e \<Rightarrow> Returned (Inl e) | Inr v \<Rightarrow> Returned (Inr v)) = Returned x"
  by (cases x) simp_all

text \<open>
  C10. \<open>getEnvironmentExtraVarsJSON\<close> returns the JSON serialisation (\<open>json.Marshal\<close>) of
  the very map \<open>getEnvironmentExtraVars\<close> returns on the same inputs; it returns the same
  error and panics alike where that one does. Where the codec serialises the map that was
  built (it refuses no value such a map can hold), the two fail on exactly the same inputs.
\<close>

theorem getEnvironmentExtraVarsJSON_marshals_getEnvironmentExtraVars:
  "getEnvironmentExtraVarsJSON w t username incomingVersion =
     (case getEnvironmentExtraVars w t username incomingVersion of
        Panicked p \<Rightarrow> Panicked p
      | Returned (Inl err) \<Rightarrow> Returned (Inl err)
      | Returned (Inr extraVars) \<Rightarrow> Returned (json_Marshal w extraVars))
   \<and> ((\<forall>extraVars. getEnvironmentExtraVars w t username incomingVersion
                        = Returned (Inr extraVars)
                    \<longrightarrow> (\<exists>str. json_Marshal w extraVars = Inr str))
        \<longrightarrow> ((\<exists>err. getEnvironmentExtraVarsJSON w t username incomingVersion
                        = Returned (Inl err))
               = (\<exists>err. getEnvironmentExtraVars w t username incomingVersion
                        = Returned (Inl err)))
          \<and> ((\<exists>p. getEnvironmentExtraVarsJSON w t username incomingVersion = Panicked p)
               = (\<exists>p. getEnvironmentExtraVars w t username incomingVersion = Panicked p)))"
proof -
  have eq: "getEnvironmentExtraVarsJSON w t username incomingVersion =
     (case getEnvironmentExtraVars w t username incomingVersion of
        Panicked p \<Rightarrow> Panicked p
      | Returned (Inl err) \<Rightarrow> Returned (Inl err)
      | Returned (Inr extraVars) \<Rightarrow> Returned (json_Marshal w extraVars))"
  proof (cases "if Environment_JSON (Environment t) \<noteq> []
                then json_Unmarshal_object w (Environment_JSON (Environment t))
                else Inr (Some Map.empty)")
    case (Inl err)
    then show ?thesis
      by (simp add: getEnvironmentExtraVarsJSON_def getEnvironmentExtraVars_def)
  next
    case (Inr extraVars)
    show ?thesis
    proof (cases extraVars)
      case None
      with Inr show ?thesis
        by (simp add: getEnvironmentExtraVarsJSON_def getEnvironmentExtraVars_def Let_def)
    next
      case (Some m)
      with Inr show ?thesis
        by (simp add: getEnvironmentExtraVarsJSON_def getEnvironmentExtraVars_def Let_def
            Returned_sum_case)
    qed
  qed
  show ?thesis
  proof (cases "getEnvironmentExtraVars w t username incomingVersion")
    case (Panicked p)
    with eq show ?thesis by simp
  next
    case (Returned r)
    show ?thesis
    proof (cases r)
      case (Inl err)
      with eq Returned show ?thesis by simp
    next
      case (Inr extraVars)
      with eq Returned show ?thesis by auto
    qed
  qed
qed

theorem getEnvironmentExtraVarsJSON_marshals_witness:
  "getEnvironmentExtraVarsJSON exampleWorld exampleJob ''admin'' (Some ''1.1'')
     = Returned (Inr ''{\"semaphore_vars\":{\"task_details\":{}}}'')
   \<and> (\<exists>extraVars. getEnvironmentExtraVars exampleWorld exampleJob ''admin'' (Some ''1.1'')
                     = Returned (Inr extraVars))
   \<and> (\<nexists>err. getEnvironmentExtraVarsJSON exampleWorld exampleJob ''admin'' (Some ''1.1'')
                     = Returned (Inl err))"
proof -
  have m: "\<And>m. json_Marshal exampleWorld m = Inr ''{\"semaphore_vars\":{\"task_details\":{}}}''"
    by (simp add: exampleWorld_def)
  have u: "json_Unmarshal_object exampleWorld ''{}'' = Inr (Some Map.empty)"
    by (simp add: exampleWorld_def)
  have j: "Environment_JSON (Environment exampleJob) = ''{}''"
    by (simp add: exampleJob_def)
  have v: "\<exists>extraVars. getEnvironmentExtraVars exampleWorld exampleJob ''admin'' (Some ''1.1'')
                     = Returned (Inr extraVars)"
    by (simp add: getEnvironmentExtraVars_def j u Let_def)
  from v obtain extraVars where
    e: "getEnvironmentExtraVars exampleWorld exampleJob ''admin'' (Some ''1.1'')
          = Returned (Inr extraVars)" by blast
  from getEnvironmentExtraVarsJSON_marshals_getEnvironmentExtraVars
         [of exampleWorld exampleJob "''admin''" "Some ''1.1''"]
  show ?thesis
    by (simp add: e m)
qed

text \<open>
  C6. For a well-formed environment (no JSON text, or a text the codec reads as an object),
  the payload is the serialisation of the environment's variables with \<open>semaphore_vars\<close>
  set to an object whose \<open>task_details\<close> is the object of \<open>taskDetailsSpec\<close>: \<open>id\<close>,
  always, the task's ID; \<open>message\<close> exactly when the task's message is not empty, and then
  that message; \<open>username\<close>, always; \<open>type\<close> exactly when the template's type is not the
  plain task type; \<open>incoming_version\<close> exactly when moreover the caller supplied one;
  \<open>target_version\<close> exactly when the type is build, and then the task's version.
\<close>

theorem task_details_of_payload:
  assumes "Environment_JSON (Environment t) = [] \<and> env = Map.empty
           \<or> Environment_JSON (Environment t) \<noteq> []
             \<and> json_Unmarshal_object w (Environment_JSON (Environment t)) = Inr (Some env)"
  shows "getEnvironmentExtraVarsJSON w t username incomingVersion =
           Returned (json_Marshal w
             (env(''semaphore_vars'' \<mapsto>
                GMap (Map.empty(''task_details'' \<mapsto>
                  GMap (taskDetailsSpec t username incomingVersion))))))"
proof -
  from assms have parse:
    "(if Environment_JSON (Environment t) \<noteq> []
      then json_Unmarshal_object w (Environment_JSON (Environment t))
      else Inr (Some Map.empty)) = Inr (Some env)"
    by auto
  show ?thesis
    unfolding getEnvironmentExtraVarsJSON_def parse
    apply (simp add: Let_def Returned_sum_case)
    apply (intro conjI impI ext
        arg_cong [where f = "\<lambda>d. json_Marshal w
             (env(''semaphore_vars'' \<mapsto> GMap (Map.empty(''task_details'' \<mapsto> GMap d))))"])
           apply (auto simp: taskDetailsSpec_def)
    done
qed

theorem task_details_of_payload_witness:
  "\<exists>taskDetails.
     getEnvironmentExtraVarsJSON exampleWorld exampleJob ''admin'' (Some ''1.1'') =
       Returned (json_Marshal exampleWorld
         (Map.empty(''semaphore_vars'' \<mapsto>
            GMap (Map.empty(''task_details'' \<mapsto> GMap taskDetails)))))
     \<and> taskDetails ''id'' = Some (GInt 42)
     \<and> taskDetails ''message'' = Some (GString ''deploy'')
     \<and> taskDetails ''username'' = Some (GString ''admin'')
     \<and> taskDetails ''type'' = Some (GTemplateType TemplateBuild)
     \<and> taskDetails ''incoming_version'' = Some (GStringPtr (Some ''1.1''))
     \<and> taskDetails ''target_version'' = Some (GStringPtr (Some ''1.2''))
     \<and> taskDetails ''limit'' = None"
proof -
  have u: "json_Unmarshal_object exampleWorld ''{}'' = Inr (Some Map.empty)"
    by (simp add: exampleWorld_def)
  have j: "Environment_JSON (Environment exampleJob) = ''{}''"
    by (simp add: exampleJob_def)
  have pre: "Environment_JSON (Environment exampleJob) = [] \<and> Map.empty = Map.empty
           \<or> Environment_JSON (Environment exampleJob) \<noteq> []
             \<and> json_Unmarshal_object exampleWorld (Environment_JSON (Environment exampleJob))
                 = Inr (Some Map.empty)"
    by (simp add: j u)
  have f: "Task_ID (Task exampleJob) = 42" "Task_Message (Task exampleJob) = ''deploy''"
    "Template_Type (Template exampleJob) = TemplateBuild"
    "Task_Version (Task exampleJob) = Some ''1.2''"
    by (simp_all add: exampleJob_def)
  show ?thesis
    apply (rule exI [of _ "taskDetailsSpec exampleJob ''admin'' (Some ''1.1'')"])
    apply (rule conjI)
     apply (rule task_details_of_payload [OF pre])
    apply (simp add: taskDetailsSpec_def f)
    done
qed

subsection \<open>Kill\<close>

text \<open>
  C7. While no process has been set, \<open>Kill\<close> does nothing: no kill is attempted, nothing
  is logged and the job is unchanged. With a process, \<open>Kill\<close> asks once for it to be killed,
  and an error of that request is only logged: the job is unchanged and \<open>Kill\<close> has no
  error to return.
\<close>

theorem Kill_noop_or_logged:
  "(Process t = None \<longrightarrow> Kill w t = (t, []))
   \<and> (\<forall>p. Process t = Some p \<longrightarrow>
          fst (Kill w t) = t
          \<and> snd (Kill w t) =
              EvProcessKill p
              # (case Process_Kill w p of None \<Rightarrow> [] | Some err \<Rightarrow> [EvLog (Error err)]))"
  by (auto simp: Kill_def split: option.splits)

theorem Kill_noop_or_logged_witness:
  "Process exampleJob = None \<and> Kill finishedWorld exampleJob = (exampleJob, [])
   \<and> Kill finishedWorld (exampleJob\<lparr>Process := Some 7\<rparr>) =
       (exampleJob\<lparr>Process := Some 7\<rparr>,
        [EvProcessKill 7, EvLog ''os: process already finished''])"
proof -
  have n: "Process exampleJob = None"
    by (simp add: exampleJob_def)
  have k: "Process_Kill finishedWorld 7 = Some (GoError ''os: process already finished'' False)"
    by (simp add: finishedWorld_def)
  from Kill_noop_or_logged [of exampleJob finishedWorld]
    Kill_noop_or_logged [of "exampleJob\<lparr>Process := Some 7\<rparr>" finishedWorld]
  show ?thesis
    by (simp add: n k prod_eq_iff)
qed

subsection \<open>updateRepository\<close>

text \<open>
  C9, as the claim states it, fails: when the working copy does not validate and its
  directory cannot be removed, \<open>updateRepository\<close> returns the removal error and never
  clones.
\<close>

theorem updateRepository_clone_counterexample:
  "ValidateRepo_update staleWorld \<noteq> None
   \<and> updateRepository staleWorld exampleJob =
       (Some (GoError ''permission denied'' False), [EvValidateRepo, EvRemoveAll])
   \<and> count_list (snd (updateRepository staleWorld exampleJob)) EvClone = 0"
  by (simp add: updateRepository_def staleWorld_def exampleWorld_def)

text \<open>
  C9, amended. \<open>updateRepository\<close> invokes pull exactly when the working copy validates
  and can be fast-forwarded, at most once, and stops there if the pull succeeds. In every
  other case: when a working copy is present it removes the directory first and, if the
  removal fails, returns that error without cloning; otherwise it clones exactly once,
  right after the removal, and returns what the clone returns; when no working copy
  exists it clones exactly once without a removal. Pull is never invoked when the working
  copy does not validate.
\<close>

theorem updateRepository_pull_or_clone:
  "(EvPull \<in> set (snd (updateRepository w t))
      \<longleftrightarrow> ValidateRepo_update w = None \<and> CanBePulled w)
   \<and> count_list (snd (updateRepository w t)) EvPull \<le> 1
   \<and> (ValidateRepo_update w = None \<and> CanBePulled w \<and> Pull w = None \<longrightarrow>
        updateRepository w t = (None, [EvValidateRepo, EvCanBePulled, EvPull]))
   \<and> (\<not> (ValidateRepo_update w = None \<and> CanBePulled w \<and> Pull w = None) \<longrightarrow>
        (if workingCopyPresent w
         then (case os_RemoveAll w of
                 Some err \<Rightarrow>
                   fst (updateRepository w t) = Some err
                   \<and> count_list (snd (updateRepository w t)) EvClone = 0
                   \<and> (\<exists>before. snd (updateRepository w t) = before @ [EvRemoveAll])
               | None \<Rightarrow>
                   fst (updateRepository w t) = Clone w
                   \<and> count_list (snd (updateRepository w t)) EvClone = 1
                   \<and> count_list (snd (updateRepository w t)) EvRemoveAll = 1
                   \<and> (\<exists>before. snd (updateRepository w t) = before @ [EvRemoveAll, EvClone]))
         else fst (updateRepository w t) = Clone w
              \<and> count_list (snd (updateRepository w t)) EvClone = 1
              \<and> EvRemoveAll \<notin> set (snd (updateRepository w t))))"
proof (cases "ValidateRepo_update w")
  case None
  then show ?thesis
    by (cases "os_RemoveAll w")
      (simp_all add: updateRepository_def workingCopyPresent_def Let_def)
next
  case (Some err)
  then show ?thesis
    by (cases "os_RemoveAll w")
      (simp_all add: updateRepository_def workingCopyPresent_def)
qed

theorem updateRepository_pull_or_clone_witness:
  "updateRepository exampleWorld exampleJob = (None, [EvValidateRepo, EvCanBePulled, EvPull])
   \<and> workingCopyPresent staleWorld
   \<and> fst (updateRepository staleWorld exampleJob) = Some (GoError ''permission denied'' False)
   \<and> count_list (snd (updateRepository staleWorld exampleJob)) EvClone = 0
   \<and> EvPull \<notin> set (snd (updateRepository staleWorld exampleJob))"
proof -
  have e: "ValidateRepo_update exampleWorld = None" "CanBePulled exampleWorld"
    "Pull exampleWorld = None"
    by (simp_all add: exampleWorld_def)
  have s: "ValidateRepo_update staleWorld = Some (GoError ''remote url mismatch'' False)"
    "os_RemoveAll staleWorld = Some (GoError ''permission denied'' False)"
    by (simp_all add: staleWorld_def)
  have p: "workingCopyPresent staleWorld"
    by (simp add: workingCopyPresent_def s)
  from updateRepository_pull_or_clone [of exampleWorld exampleJob]
    updateRepository_pull_or_clone [of staleWorld exampleJob]
  show ?thesis
    by (simp add: e s p)
qed

subsection \<open>prepareRun\<close>

lemma callInstallInventory_events:
  "filter isRepositoryCall (snd (snd (callInstallInventory w t))) = []"
  by (simp add: callInstallInventory_def Let_def)

lemma installVaultKeyFile_events:
  "filter isRepositoryCall (snd (snd (installVaultKeyFile w t))) = []"
  by (simp add: installVaultKeyFile_def split: prod.split)

lemma prepareRepository_local:
  "Repository_GetType w (Repository t) = RepositoryLocal \<Longrightarrow>
   prepareRepository w t =
     (os_Stat w (Repository_GitURL (Repository t)),
      EvStat (Repository_GitURL (Repository t))
      # (case os_Stat w (Repository_GitURL (Repository t)) of
           None \<Rightarrow> []
         | Some err \<Rightarrow>
             [EvLog (''Failed in finding static repository at ''
                     @ Repository_GitURL (Repository t) @ '': '' @ Error err)]))"
  by (simp add: prepareRepository_def split: option.split)

text \<open>
  C8. For a repository of the local kind, \<open>prepareRun\<close> makes no call on the repository
  (no validation, pull test, pull, removal, clone or checkout). Once the temporary
  directory is there it checks the repository's path exactly once and, when the path does
  not exist, fails with the error of that check, having gone no further (nothing is
  installed).
\<close>

theorem prepareRun_local_repository:
  assumes "Repository_GetType w (Repository t) = RepositoryLocal"
  shows "filter isRepositoryCall (snd (snd (prepareRun w t))) = []
         \<and> (checkTmpDir w (TmpPath w) = None \<longrightarrow>
              count_list (snd (snd (prepareRun w t)))
                (EvStat (Repository_GitURL (Repository t))) = 1
              \<and> (\<forall>err. os_Stat w (Repository_GitURL (Repository t)) = Some err \<longrightarrow>
                    prepareRun w t =
                      (Some err, t,
                       [EvLog (''Preparing: '' @ Itoa (Task_ID (Task t))),
                        EvCheckTmpDir (TmpPath w),
                        EvStat (Repository_GitURL (Repository t)),
                        EvLog (''Failed in finding static repository at ''
                               @ Repository_GitURL (Repository t) @ '': '' @ Error err)])))"
proof (cases "checkTmpDir w (TmpPath w)")
  case (Some err)
  then show ?thesis
    by (simp add: prepareRun_def)
next
  case None
  note tmp = this
  show ?thesis
  proof (cases "os_Stat w (Repository_GitURL (Repository t))")
    case (Some err)
    with tmp show ?thesis
      by (simp add: prepareRun_def prepareRepository_local [OF assms])
  next
    case None
    obtain e1 t1 ev1 where c: "callInstallInventory w t = (e1, t1, ev1)"
      by (cases "callInstallInventory w t") auto
    obtain e2 t2 ev2 where v: "installVaultKeyFile w t1 = (e2, t2, ev2)"
      by (cases "installVaultKeyFile w t1") auto
    from callInstallInventory_events [of w t] c
    have f1: "filter isRepositoryCall ev1 = []" by simp
    from installVaultKeyFile_events [of w t1] v
    have f2: "filter isRepositoryCall ev2 = []" by simp
    have s1: "count_list ev1 (EvStat (Repository_GitURL (Repository t))) = 0"
      using c by (auto simp: callInstallInventory_def Let_def)
    have s2: "count_list ev2 (EvStat (Repository_GitURL (Repository t))) = 0"
      using v by (auto simp: installVaultKeyFile_def split: if_splits prod.splits)
    from tmp None c v f1 f2 s1 s2 show ?thesis
      by (simp add: prepareRun_def prepareRepository_local [OF assms] Let_def
          split: option.split)
  qed
qed

theorem prepareRun_local_repository_witness:
  "Repository_GetType missingDirWorld (Repository localJob) = RepositoryLocal
   \<and> filter isRepositoryCall (snd (snd (prepareRun missingDirWorld localJob))) = []
   \<and> prepareRun missingDirWorld localJob =
       (Some (GoError ''stat /srv/playbooks: no such file or directory'' True), localJob,
        [EvLog (''Preparing: '' @ Itoa 42),
         EvCheckTmpDir ''/tmp/semaphore'',
         EvStat ''/srv/playbooks'',
         EvLog ''Failed in finding static repository at /srv/playbooks: stat /srv/playbooks: no such file or directory''])"
proof -
  have l: "Repository_GetType missingDirWorld (Repository localJob) = RepositoryLocal"
    by (simp add: missingDirWorld_def exampleWorld_def localJob_def)
  have f: "checkTmpDir missingDirWorld ''/tmp/semaphore'' = None"
    "TmpPath missingDirWorld = ''/tmp/semaphore''"
    "os_Stat missingDirWorld ''/srv/playbooks''
       = Some (GoError ''stat /srv/playbooks: no such file or directory'' True)"
    "Repository_GitURL (Repository localJob) = ''/srv/playbooks''"
    "Task_ID (Task localJob) = 42"
    by (simp_all add: missingDirWorld_def exampleWorld_def localJob_def exampleJob_def)
  from prepareRun_local_repository [OF l]
  show ?thesis
    by (simp add: l f)
qed

subsection \<open>getPlaybookArgs\<close>

lemma sshKeyArgs_extras:
  "sshKeyArgs t args = (args', err) \<Longrightarrow> args' = args @ loginExtras t"
  by (cases "AccessKey_Type (Inventory_SSHKey (Inventory t))")
    (auto simp: sshKeyArgs_def loginExtras_def split: if_splits)

lemma becomeKeyArgs_extras:
  "becomeKeyArgs t args = (args', err) \<Longrightarrow> args' = args @ becomeExtras t"
  by (cases "AccessKey_Type (Inventory_BecomeKey (Inventory t))")
    (auto simp: becomeKeyArgs_def becomeExtras_def split: if_splits)

lemma flag_let_chain:
  "(let args = (if Task_Debug (Task t) then a @ [''-vvvv''] else a);
        args = (if Task_Diff (Task t) then args @ [''--diff''] else args);
        args = (if Task_DryRun (Task t) then args @ [''--check''] else args);
        args = (if Template_VaultKeyID (Template t) \<noteq> None
                then args @ [''--vault-password-file'', GetPath (vaultFileInstallation t)]
                else args)
    in K args) = K (a @ flagArgs t)"
  by (simp add: flagArgs_def Let_def)

lemma getPlaybookArgs_after_keys:
  assumes i: "inventoryArg w t = Inr inventory"
    and s: "sshKeyArgs t [''-i'', inventory] = (a1, None)"
    and b: "becomeKeyArgs t a1 = (a2, None)"
    and j: "getEnvironmentExtraVarsJSON w t username incomingVersion = Returned r"
    and g: "getPlaybookArgs w t username incomingVersion = (Returned (args, err), logs)"
  shows "\<exists>rest. args = a2 @ flagArgs t @ rest"
  using g
  unfolding getPlaybookArgs_def flag_let_chain
  apply (cases "Template_AllowOverrideArgsInTask (Template t)";
         cases "Task_Limit (Task t) = []"; cases r)
         apply (auto simp: Let_def i s b j split: sum.splits option.splits)
  done

lemma getPlaybookArgs_inventory_prefix:
  assumes i: "inventoryArg w t = Inr inventory"
    and g: "getPlaybookArgs w t username incomingVersion = (Returned (args, err), logs)"
  shows "\<exists>rest. args = ''-i'' # inventory # rest"
proof -
  obtain a1 e1 where s: "sshKeyArgs t [''-i'', inventory] = (a1, e1)"
    by (cases "sshKeyArgs t [''-i'', inventory]") auto
  obtain a2 e2 where b: "becomeKeyArgs t a1 = (a2, e2)"
    by (cases "becomeKeyArgs t a1") auto
  have a1: "a1 = [''-i'', inventory] @ loginExtras t"
    by (rule sshKeyArgs_extras [OF s])
  have a2: "a2 = a1 @ becomeExtras t"
    by (rule becomeKeyArgs_extras [OF b])
  show ?thesis
  proof (cases e1)
    case (Some e)
    with g have "args = a1"
      by (simp add: getPlaybookArgs_def i s)
    with a1 show ?thesis by simp
  next
    case None
    note e1 = this
    show ?thesis
    proof (cases e2)
      case (Some e)
      with g e1 have "args = a2"
        by (simp add: getPlaybookArgs_def i s b)
      with a1 a2 show ?thesis by simp
    next
      case None
      note e2 = this
      show ?thesis
      proof (cases "getEnvironmentExtraVarsJSON w t username incomingVersion")
        case (Panicked p)
        with g e1 e2 show ?thesis
          unfolding getPlaybookArgs_def flag_let_chain
          by (simp add: i s b)
      next
        case (Returned r)
        from getPlaybookArgs_after_keys [OF i s [unfolded e1] b [unfolded e2] Returned g]
        obtain rest where "args = a2 @ flagArgs t @ rest" by blast
        with a1 a2 show ?thesis by simp
      qed
    qed
  qed
qed

text \<open>
  C4. The inventory argument follows the flag \<open>-i\<close> at the head of the vector
  \<open>getPlaybookArgs\<close> returns: for static inline text it is the temporary root followed by
  \<open>/inventory_\<close> and the task's ID in decimal; for static YAML text the same with the
  suffix \<open>.yml\<close>; for an inline file path it is the stored path. For any other kind
  \<open>getPlaybookArgs\<close> returns the invalid-inventory-type error with no argument built and
  nothing logged.
\<close>

theorem getPlaybookArgs_inventory_argument:
  "(\<forall>other. Inventory_Type (Inventory t) = InventoryTypeOther other \<longrightarrow>
      getPlaybookArgs w t username incomingVersion =
        (Returned ([], Some (Errorf ''invalid invetory type'')), []))
   \<and> (\<forall>args err logs.
        getPlaybookArgs w t username incomingVersion = (Returned (args, err), logs) \<longrightarrow>
          (Inventory_Type (Inventory t) = InventoryStatic \<longrightarrow>
             take 2 args = [''-i'', TmpPath w @ ''/inventory_'' @ Itoa (Task_ID (Task t))])
          \<and> (Inventory_Type (Inventory t) = InventoryStaticYaml \<longrightarrow>
             take 2 args =
               [''-i'', TmpPath w @ ''/inventory_'' @ Itoa (Task_ID (Task t)) @ ''.yml''])
          \<and> (Inventory_Type (Inventory t) = InventoryFile \<longrightarrow>
             take 2 args = [''-i'', Inventory_Inventory (Inventory t)]))"
proof (intro conjI allI impI)
  fix other
  assume "Inventory_Type (Inventory t) = InventoryTypeOther other"
  then show "getPlaybookArgs w t username incomingVersion =
        (Returned ([], Some (Errorf ''invalid invetory type'')), [])"
    by (simp add: getPlaybookArgs_def inventoryArg_def)
next
  fix args err logs
  assume g: "getPlaybookArgs w t username incomingVersion = (Returned (args, err), logs)"
    and k: "Inventory_Type (Inventory t) = InventoryStatic"
  from k have "inventoryArg w t = Inr (TmpPath w @ ''/inventory_'' @ Itoa (Task_ID (Task t)))"
    by (simp add: inventoryArg_def)
  from getPlaybookArgs_inventory_prefix [OF this g]
  show "take 2 args = [''-i'', TmpPath w @ ''/inventory_'' @ Itoa (Task_ID (Task t))]"
    by (auto simp: numeral_2_eq_2)
next
  fix args err logs
  assume g: "getPlaybookArgs w t username incomingVersion = (Returned (args, err), logs)"
    and k: "Inventory_Type (Inventory t) = InventoryStaticYaml"
  from k have "inventoryArg w t
      = Inr (TmpPath w @ ''/inventory_'' @ Itoa (Task_ID (Task t)) @ ''.yml'')"
    by (simp add: inventoryArg_def)
  from getPlaybookArgs_inventory_prefix [OF this g]
  show "take 2 args
      = [''-i'', TmpPath w @ ''/inventory_'' @ Itoa (Task_ID (Task t)) @ ''.yml'']"
    by (auto simp: numeral_2_eq_2)
next
  fix args err logs
  assume g: "getPlaybookArgs w t username incomingVersion = (Returned (args, err), logs)"
    and k: "Inventory_Type (Inventory t) = InventoryFile"
  from k have "inventoryArg w t = Inr (Inventory_Inventory (Inventory t))"
    by (simp add: inventoryArg_def)
  from getPlaybookArgs_inventory_prefix [OF this g]
  show "take 2 args = [''-i'', Inventory_Inventory (Inventory t)]"
    by (auto simp: numeral_2_eq_2)
qed

lemma Itoa_42: "Itoa 42 = ''42''"
  by (simp add: Itoa_def decimal.simps digit_def)

lemma example_extraVarsJSON:
  "getEnvironmentExtraVarsJSON exampleWorld exampleJob ''admin'' None
     = Returned (Inr ''{\"semaphore_vars\":{\"task_details\":{}}}'')"
  by (simp add: getEnvironmentExtraVarsJSON_def exampleWorld_def exampleJob_def Let_def)

lemma example_getPlaybookArgs:
  "getPlaybookArgs exampleWorld exampleJob ''admin'' None =
     (Returned
        ([''-i'', ''/tmp/semaphore/inventory_42.yml'', ''--diff'', ''--check'',
          ''--extra-vars'', ''{\"semaphore_vars\":{\"task_details\":{}}}'',
          ''--tags'', ''web'', ''--limit=web*'', ''site.yml''], None),
      [EvLog ''--limit=web*''])"
  unfolding getPlaybookArgs_def example_extraVarsJSON
  by (simp add: inventoryArg_def sshKeyArgs_def becomeKeyArgs_def Itoa_42
      exampleWorld_def exampleJob_def Let_def)

theorem getPlaybookArgs_inventory_argument_witness:
  "Inventory_Type (Inventory exampleJob) = InventoryStaticYaml
   \<and> fst (getPlaybookArgs exampleWorld exampleJob ''admin'' None)
       = Returned
           ([''-i'', ''/tmp/semaphore/inventory_42.yml'', ''--diff'', ''--check'',
             ''--extra-vars'', ''{\"semaphore_vars\":{\"task_details\":{}}}'',
             ''--tags'', ''web'', ''--limit=web*'', ''site.yml''], None)
   \<and> take 2 [''-i'', ''/tmp/semaphore/inventory_42.yml'', ''--diff'', ''--check'',
             ''--extra-vars'', ''{\"semaphore_vars\":{\"task_details\":{}}}'',
             ''--tags'', ''web'', ''--limit=web*'', ''site.yml'']
       = [''-i'', ''/tmp/semaphore/inventory_42.yml'']
   \<and> Inventory_Type (Inventory unknownInventoryJob) = InventoryTypeOther ''none''
   \<and> getPlaybookArgs exampleWorld unknownInventoryJob ''admin'' None
       = (Returned ([], Some (Errorf ''invalid invetory type'')), [])"
proof -
  have k: "Inventory_Type (Inventory exampleJob) = InventoryStaticYaml"
    "TmpPath exampleWorld = ''/tmp/semaphore''" "Task_ID (Task exampleJob) = 42"
    by (simp_all add: exampleJob_def exampleWorld_def)
  have u: "Inventory_Type (Inventory unknownInventoryJob) = InventoryTypeOther ''none''"
    by (simp add: unknownInventoryJob_def)
  from getPlaybookArgs_inventory_argument [of exampleJob exampleWorld "''admin''" None]
    getPlaybookArgs_inventory_argument [of unknownInventoryJob exampleWorld "''admin''" None]
  show ?thesis
    by (simp add: k u example_getPlaybookArgs Itoa_42)
qed

text \<open>
  C5. Whenever \<open>getPlaybookArgs\<close> succeeds (returns a nil error), the vector is, in this
  order: the flag \<open>-i\<close> and the inventory; the extras of the login credential; the extras
  of the become credential; \<open>-vvvv\<close> if the task is in debug; \<open>--diff\<close> if it asks for a
  diff; \<open>--check\<close> if it is a dry run; \<open>--vault-password-file\<close> and the path of the
  installed vault file if the template references a vault key; the extra variables under
  \<open>--extra-vars\<close>; the template's arguments, parsed; the task-level set (the task's
  arguments, parsed, only when the template allows the override, then
  \<open>--limit=\<close> and the limit when it is not empty); and the playbook, the task's if it
  names one, else the template's, as the last element.
\<close>

theorem getPlaybookArgs_order:
  assumes g: "getPlaybookArgs w t username incomingVersion = (Returned (args, None), logs)"
  shows "\<exists>inventory.
           inventoryArg w t = Inr inventory
         \<and> args =
             [''-i'', inventory]
             @ loginExtras t
             @ becomeExtras t
             @ (if Task_Debug (Task t) then [''-vvvv''] else [])
             @ (if Task_Diff (Task t) then [''--diff''] else [])
             @ (if Task_DryRun (Task t) then [''--check''] else [])
             @ (if Template_VaultKeyID (Template t) = None then []
                else [''--vault-password-file'', GetPath (vaultFileInstallation t)])
             @ extraVarsArgs w t username incomingVersion
             @ parsedArguments w (Template_Arguments (Template t))
             @ taskLevelArgs w t
             @ [resolvedPlaybook t]
         \<and> last args = resolvedPlaybook t"
proof (cases "inventoryArg w t")
  case (Inl e)
  with g show ?thesis
    by (simp add: getPlaybookArgs_def)
next
  case (Inr inventory)
  note i = this
  obtain a1 e1 where s: "sshKeyArgs t [''-i'', inventory] = (a1, e1)"
    by (cases "sshKeyArgs t [''-i'', inventory]") auto
  obtain a2 e2 where b: "becomeKeyArgs t a1 = (a2, e2)"
    by (cases "becomeKeyArgs t a1") auto
  have a1: "a1 = [''-i'', inventory] @ loginExtras t"
    by (rule sshKeyArgs_extras [OF s])
  have a2: "a2 = a1 @ becomeExtras t"
    by (rule becomeKeyArgs_extras [OF b])
  have e1: "e1 = None"
    using g by (cases e1) (simp_all add: getPlaybookArgs_def i s)
  have e2: "e2 = None"
    using g e1 by (cases e2) (simp_all add: getPlaybookArgs_def i s b)
  obtain r where j: "getEnvironmentExtraVarsJSON w t username incomingVersion = Returned r"
    using g e1 e2 unfolding getPlaybookArgs_def flag_let_chain
    by (cases "getEnvironmentExtraVarsJSON w t username incomingVersion")
      (simp_all add: i s b)
  have "args = a2 @ flagArgs t
                 @ extraVarsArgs w t username incomingVersion
                 @ parsedArguments w (Template_Arguments (Template t))
                 @ taskLevelArgs w t
                 @ [resolvedPlaybook t]"
    using g
    unfolding getPlaybookArgs_def flag_let_chain
    apply (cases "Template_AllowOverrideArgsInTask (Template t)";
        cases "Task_Limit (Task t) = []"; cases r)
           apply (auto simp: Let_def i s b j e1 e2 extraVarsArgs_def parsedArguments_def
        taskLevelArgs_def resolvedPlaybook_def split: sum.splits option.splits)
    done
  with a1 a2 i show ?thesis
    by (simp add: flagArgs_def)
qed

theorem getPlaybookArgs_order_witness:
  "getPlaybookArgs exampleWorld exampleJob ''admin'' None =
     (Returned
        ([''-i'', ''/tmp/semaphore/inventory_42.yml'', ''--diff'', ''--check'',
          ''--extra-vars'', ''{\"semaphore_vars\":{\"task_details\":{}}}'',
          ''--tags'', ''web'', ''--limit=web*'', ''site.yml''], None),
      [EvLog ''--limit=web*''])
   \<and> (\<exists>inventory.
         inventoryArg exampleWorld exampleJob = Inr inventory
       \<and> [''-i'', ''/tmp/semaphore/inventory_42.yml'', ''--diff'', ''--check'',
          ''--extra-vars'', ''{\"semaphore_vars\":{\"task_details\":{}}}'',
          ''--tags'', ''web'', ''--limit=web*'', ''site.yml'']
         = [''-i'', inventory] @ [] @ [] @ [] @ [''--diff''] @ [''--check''] @ []
           @ extraVarsArgs exampleWorld exampleJob ''admin'' None
           @ []
           @ taskLevelArgs exampleWorld exampleJob
           @ [''site.yml''])
   \<and> taskLevelArgs exampleWorld exampleJob = [''--tags'', ''web'', ''--limit=web*'']"
proof -
  have f: "loginExtras exampleJob = []" "becomeExtras exampleJob = []"
    "Task_Debug (Task exampleJob) = False" "Task_Diff (Task exampleJob) = True"
    "Task_DryRun (Task exampleJob) = True" "Template_VaultKeyID (Template exampleJob) = None"
    "parsedArguments exampleWorld (Template_Arguments (Template exampleJob)) = []"
    "resolvedPlaybook exampleJob = ''site.yml''"
    by (simp_all add: loginExtras_def becomeExtras_def parsedArguments_def
        resolvedPlaybook_def exampleJob_def)
  have l: "taskLevelArgs exampleWorld exampleJob = [''--tags'', ''web'', ''--limit=web*'']"
    by (simp add: taskLevelArgs_def parsedArguments_def exampleJob_def exampleWorld_def)
  from getPlaybookArgs_order [OF example_getPlaybookArgs]
  show ?thesis
    by (simp add: example_getPlaybookArgs f l)
qed

text \<open>
  C3 fails on the code. With a malformed environment and no stored arguments to parse,
  \<open>getPlaybookArgs\<close> logs the error as not fatal and builds the whole vector without
  \<open>--extra-vars\<close>, but its named result \<open>err\<close> still holds the error of the extra
  variables at the final \<open>return\<close>: the caller gets a non-nil error, and \<open>Run\<close> returns it
  without starting the process.
\<close>

theorem getPlaybookArgs_malformed_environment_is_fatal:
  "getPlaybookArgs exampleWorld malformedEnvJob ''admin'' None =
     (Returned
        ([''-i'', ''/tmp/semaphore/inventory_42.yml'', ''--diff'', ''--check'',
          ''--limit=web*'', ''site.yml''],
         Some (GoError ''unexpected end of JSON input'' False)),
      [EvLog ''unexpected end of JSON input'',
       EvLog ''Could not remove command environment, if existant it will be passed to --extra-vars. This is not fatal but be aware of side effects'',
       EvLog ''--limit=web*''])
   \<and> fst (Run exampleWorld malformedEnvJob ''admin'' None)
       = Returned (Some (GoError ''unexpected end of JSON input'' False))
   \<and> snd (snd (Run exampleWorld malformedEnvJob ''admin'' None)) =
       [EvSetStatus TaskRunningStatus, EvLog ''Preparing: 42'',
        EvCheckTmpDir ''/tmp/semaphore'', EvValidateRepo, EvCanBePulled, EvPull,
        EvValidateRepo, EvInstallInventory, EvInstallRequirements,
        EvLog ''unexpected end of JSON input'',
        EvLog ''Could not remove command environment, if existant it will be passed to --extra-vars. This is not fatal but be aware of side effects'',
        EvLog ''--limit=web*'', EvDestroyKeys]"
proof -
  have j: "getEnvironmentExtraVarsJSON exampleWorld malformedEnvJob ''admin'' None
             = Returned (Inl (GoError ''unexpected end of JSON input'' False))"
    by (simp add: getEnvironmentExtraVarsJSON_def exampleWorld_def malformedEnvJob_def
        exampleJob_def)
  have g: "getPlaybookArgs exampleWorld malformedEnvJob ''admin'' None =
     (Returned
        ([''-i'', ''/tmp/semaphore/inventory_42.yml'', ''--diff'', ''--check'',
          ''--limit=web*'', ''site.yml''],
         Some (GoError ''unexpected end of JSON input'' False)),
      [EvLog ''unexpected end of JSON input'',
       EvLog ''Could not remove command environment, if existant it will be passed to --extra-vars. This is not fatal but be aware of side effects'',
       EvLog ''--limit=web*''])"
    unfolding getPlaybookArgs_def j
    by (simp add: inventoryArg_def sshKeyArgs_def becomeKeyArgs_def Itoa_42
        exampleWorld_def malformedEnvJob_def exampleJob_def Let_def)
  have p: "prepareRun exampleWorld malformedEnvJob =
      (None, malformedEnvJob,
       [EvLog ''Preparing: 42'', EvCheckTmpDir ''/tmp/semaphore'', EvValidateRepo,
        EvCanBePulled, EvPull, EvValidateRepo, EvInstallInventory, EvInstallRequirements])"
    by (simp add: prepareRun_def prepareRepository_def updateRepository_def
        checkoutRepository_def callInstallInventory_def installVaultKeyFile_def Itoa_42
        exampleWorld_def malformedEnvJob_def exampleJob_def Let_def)
  have a: "Template_App (Template malformedEnvJob) = TemplateAnsible"
    by (simp add: malformedEnvJob_def exampleJob_def)
  have r: "Run exampleWorld malformedEnvJob ''admin'' None =
      (Returned (Some (GoError ''unexpected end of JSON input'' False)), malformedEnvJob,
       [EvSetStatus TaskRunningStatus, EvLog ''Preparing: 42'',
        EvCheckTmpDir ''/tmp/semaphore'', EvValidateRepo, EvCanBePulled, EvPull,
        EvValidateRepo, EvInstallInventory, EvInstallRequirements,
        EvLog ''unexpected end of JSON input'',
        EvLog ''Could not remove command environment, if existant it will be passed to --extra-vars. This is not fatal but be aware of side effects'',
        EvLog ''--limit=web*'', EvDestroyKeys])"
    by (simp add: Run_def runApp_def p a g)
  show ?thesis
    by (simp add: g r)
qed

subsection \<open>Run\<close>

text \<open>
  C2, as the claim states it, fails: with a template of an application other than Ansible
  and a preparation that succeeds, \<open>Run\<close> panics.
\<close>

theorem Run_unsupported_app_counterexample:
  "Template_App (Template unsupportedAppJob) = TemplateAppOther ''terraform''
   \<and> fst (Run exampleWorld unsupportedAppJob ''admin'' None) = Panicked ''unknown template app''"
proof -
  have p: "prepareRun exampleWorld unsupportedAppJob =
      (None, unsupportedAppJob,
       [EvLog ''Preparing: 42'', EvCheckTmpDir ''/tmp/semaphore'', EvValidateRepo,
        EvCanBePulled, EvPull, EvValidateRepo, EvInstallInventory, EvInstallRequirements])"
    by (simp add: prepareRun_def prepareRepository_def updateRepository_def
        checkoutRepository_def callInstallInventory_def installVaultKeyFile_def Itoa_42
        exampleWorld_def unsupportedAppJob_def exampleJob_def Let_def)
  have a: "Template_App (Template unsupportedAppJob) = TemplateAppOther ''terraform''"
    by (simp add: unsupportedAppJob_def)
  show ?thesis
    by (simp add: Run_def runApp_def p a)
qed

lemma prepareRun_Template:
  "prepareRun w t = (err, t', ev) \<Longrightarrow> Template t' = Template t"
  by (auto simp: prepareRun_def callInstallInventory_def installVaultKeyFile_def Let_def
      split: option.splits prod.splits if_splits)

text \<open>
  C2, amended. For a template of an application other than Ansible, \<open>Run\<close> neither builds
  a command nor starts a process: when \<open>prepareRun\<close> fails, \<open>Run\<close> returns that error to
  the caller; when it succeeds, \<open>Run\<close> panics with "unknown template app", after the
  deferred \<open>destroyKeys\<close> has run once.
\<close>

theorem Run_unsupported_app:
  assumes "Template_App (Template t) = TemplateAppOther other"
  shows "(\<forall>err t' ev. prepareRun w t = (Some err, t', ev) \<longrightarrow>
            Run w t username incomingVersion =
              (Returned (Some err), t', EvSetStatus TaskRunningStatus # ev))
         \<and> (\<forall>t' ev. prepareRun w t = (None, t', ev) \<longrightarrow>
            Run w t username incomingVersion =
              (Panicked ''unknown template app'', t',
               EvSetStatus TaskRunningStatus # ev @ [EvDestroyKeys]))"
proof (intro conjI allI impI)
  fix err t' ev
  assume "prepareRun w t = (Some err, t', ev)"
  then show "Run w t username incomingVersion =
              (Returned (Some err), t', EvSetStatus TaskRunningStatus # ev)"
    by (simp add: Run_def)
next
  fix t' ev
  assume p: "prepareRun w t = (None, t', ev)"
  from prepareRun_Template [OF p] assms
  have "Template_App (Template t') = TemplateAppOther other" by simp
  with p show "Run w t username incomingVersion =
              (Panicked ''unknown template app'', t',
               EvSetStatus TaskRunningStatus # ev @ [EvDestroyKeys])"
    by (simp add: Run_def runApp_def)
qed

theorem Run_unsupported_app_witness:
  "Template_App (Template unsupportedAppJob) = TemplateAppOther ''terraform''
   \<and> Run exampleWorld unsupportedAppJob ''admin'' None =
       (Panicked ''unknown template app'', unsupportedAppJob,
        [EvSetStatus TaskRunningStatus, EvLog ''Preparing: 42'',
         EvCheckTmpDir ''/tmp/semaphore'', EvValidateRepo, EvCanBePulled, EvPull,
         EvValidateRepo, EvInstallInventory, EvInstallRequirements, EvDestroyKeys])
   \<and> Run (exampleWorld\<lparr>checkTmpDir := (\<lambda>path. Some (GoError ''mkdir: read-only file system'' False))\<rparr>)
         unsupportedAppJob ''admin'' None =
       (Returned (Some (GoError ''mkdir: read-only file system'' False)), unsupportedAppJob,
        [EvSetStatus TaskRunningStatus, EvLog ''Preparing: 42'',
         EvCheckTmpDir ''/tmp/semaphore'',
         EvLog ''Creating tmp dir failed: mkdir: read-only file system''])"
proof -
  have a: "Template_App (Template unsupportedAppJob) = TemplateAppOther ''terraform''"
    by (simp add: unsupportedAppJob_def)
  have p: "prepareRun exampleWorld unsupportedAppJob =
      (None, unsupportedAppJob,
       [EvLog ''Preparing: 42'', EvCheckTmpDir ''/tmp/semaphore'', EvValidateRepo,
        EvCanBePulled, EvPull, EvValidateRepo, EvInstallInventory, EvInstallRequirements])"
    by (simp add: prepareRun_def prepareRepository_def updateRepository_def
        checkoutRepository_def callInstallInventory_def installVaultKeyFile_def Itoa_42
        exampleWorld_def unsupportedAppJob_def exampleJob_def Let_def)
  have q: "prepareRun
             (exampleWorld\<lparr>checkTmpDir :=
                (\<lambda>path. Some (GoError ''mkdir: read-only file system'' False))\<rparr>)
             unsupportedAppJob =
      (Some (GoError ''mkdir: read-only file system'' False), unsupportedAppJob,
       [EvLog ''Preparing: 42'', EvCheckTmpDir ''/tmp/semaphore'',
        EvLog ''Creating tmp dir failed: mkdir: read-only file system''])"
    by (simp add: prepareRun_def Itoa_42 exampleWorld_def unsupportedAppJob_def
        exampleJob_def Let_def)
  from Run_unsupported_app [OF a, of exampleWorld "''admin''" None]
    Run_unsupported_app [OF a,
      of "exampleWorld\<lparr>checkTmpDir :=
            (\<lambda>path. Some (GoError ''mkdir: read-only file system'' False))\<rparr>" "''admin''" None]
  show ?thesis
    by (simp add: a p q)
qed

text \<open>
  C1 fails on the code. \<open>installInventory\<close> installs the SSH key, then installing the
  requirements fails: \<open>prepareRun\<close> returns the error and \<open>Run\<close> returns it before its
  \<open>defer\<close> statement, so \<open>destroyKeys\<close> never runs although an installation is held.
\<close>

theorem Run_failed_prepare_skips_destroyKeys:
  "fst (Run requirementsFailWorld sshKeyJob ''admin'' None)
     = Returned (Some (GoError ''exit status 1'' False))
   \<and> sshKeyInstallation (fst (snd (Run requirementsFailWorld sshKeyJob ''admin'' None)))
     = \<lparr>GetPath = ''/tmp/semaphore/access_key_1'',
        SshAgent = Some \<lparr>SocketFile = ''/tmp/semaphore/ssh-agent-1.sock''\<rparr>\<rparr>
   \<and> snd (snd (Run requirementsFailWorld sshKeyJob ''admin'' None)) =
       [EvSetStatus TaskRunningStatus, EvLog ''Preparing: 42'',
        EvCheckTmpDir ''/tmp/semaphore'', EvValidateRepo, EvCanBePulled, EvPull,
        EvValidateRepo, EvInstallInventory, EvInstallKey AccessKeyRoleAnsibleUser,
        EvInstallRequirements, EvLog ''Running galaxy failed: exit status 1'']
   \<and> count_list (snd (snd (Run requirementsFailWorld sshKeyJob ''admin'' None))) EvDestroyKeys = 0"
proof -
  have p: "prepareRun requirementsFailWorld sshKeyJob =
      (Some (GoError ''exit status 1'' False),
       sshKeyJob\<lparr>sshKeyInstallation :=
         \<lparr>GetPath = ''/tmp/semaphore/access_key_1'',
          SshAgent = Some \<lparr>SocketFile = ''/tmp/semaphore/ssh-agent-1.sock''\<rparr>\<rparr>\<rparr>,
       [EvLog ''Preparing: 42'', EvCheckTmpDir ''/tmp/semaphore'', EvValidateRepo,
        EvCanBePulled, EvPull, EvValidateRepo, EvInstallInventory,
        EvInstallKey AccessKeyRoleAnsibleUser, EvInstallRequirements,
        EvLog ''Running galaxy failed: exit status 1''])"
    by (simp add: prepareRun_def prepareRepository_def updateRepository_def
        checkoutRepository_def callInstallInventory_def Itoa_42
        requirementsFailWorld_def exampleWorld_def sshKeyJob_def exampleJob_def Let_def)
  show ?thesis
    by (simp add: Run_def p)
qed

text \<open>
  Below the \<open>defer\<close> the cleanup does run: once \<open>prepareRun\<close> has succeeded, whatever
  the rest of \<open>Run\<close> does (the command cannot be built, the environment cannot be read,
  the process starts or not, the body panics), \<open>destroyKeys\<close> is the last event of \<open>Run\<close>
  and occurs exactly once.
\<close>

lemma getPlaybookArgs_no_destroyKeys:
  "EvDestroyKeys \<notin> set (snd (getPlaybookArgs w t username incomingVersion))"
proof (cases "inventoryArg w t")
  case (Inl e)
  then show ?thesis
    by (simp add: getPlaybookArgs_def)
next
  case (Inr inventory)
  note i = this
  obtain a1 e1 where s: "sshKeyArgs t [''-i'', inventory] = (a1, e1)"
    by (cases "sshKeyArgs t [''-i'', inventory]") auto
  obtain a2 e2 where b: "becomeKeyArgs t a1 = (a2, e2)"
    by (cases "becomeKeyArgs t a1") auto
  show ?thesis
  proof (cases "e1 = None \<and> e2 = None")
    case False
    then show ?thesis
      by (cases e1; cases e2) (simp_all add: getPlaybookArgs_def i s b)
  next
    case True
    show ?thesis
    proof (cases "getEnvironmentExtraVarsJSON w t username incomingVersion")
      case (Panicked p)
      with True show ?thesis
        unfolding getPlaybookArgs_def flag_let_chain
        by (simp add: i s b)
    next
      case (Returned r)
      with True show ?thesis
        unfolding getPlaybookArgs_def flag_let_chain
        apply (cases "Template_AllowOverrideArgsInTask (Template t)";
            cases "Task_Limit (Task t) = []"; cases r)
               apply (auto simp: Let_def i s b split: sum.splits option.splits)
        done
    qed
  qed
qed

lemma runApp_no_destroyKeys:
  "EvDestroyKeys \<notin> set (snd (snd (runApp w t username incomingVersion)))"
proof (cases "getPlaybookArgs w t username incomingVersion")
  case (Pair r logs)
  with getPlaybookArgs_no_destroyKeys [of w t username incomingVersion]
  have "EvDestroyKeys \<notin> set logs" by simp
  with Pair show ?thesis
    by (auto simp: runApp_def Let_def
        split: TemplateApp.splits outcome.splits sum.splits option.splits prod.splits)
qed

lemma updateRepository_no_destroyKeys:
  "EvDestroyKeys \<notin> set (snd (updateRepository w t))"
  by (cases "ValidateRepo_update w"; cases "os_RemoveAll w")
    (simp_all add: updateRepository_def Let_def)

lemma checkoutRepository_no_destroyKeys:
  "EvDestroyKeys \<notin> set (snd (checkoutRepository w t))"
  by (cases "ValidateRepo_checkout w"; cases "Task_CommitHash (Task t)")
    (simp_all add: checkoutRepository_def)

lemma prepareRepository_no_destroyKeys:
  "EvDestroyKeys \<notin> set (snd (prepareRepository w t))"
proof -
  obtain e1 ev1 where u: "updateRepository w t = (e1, ev1)"
    by (cases "updateRepository w t") auto
  obtain e2 ev2 where c: "checkoutRepository w t = (e2, ev2)"
    by (cases "checkoutRepository w t") auto
  from updateRepository_no_destroyKeys [of w t] u
  have n1: "EvDestroyKeys \<notin> set ev1" by simp
  from checkoutRepository_no_destroyKeys [of w t] c
  have n2: "EvDestroyKeys \<notin> set ev2" by simp
  show ?thesis
    by (cases e1; cases e2; cases "os_Stat w (Repository_GitURL (Repository t))")
      (simp_all add: prepareRepository_def u c n1 n2)
qed

lemma prepareRun_no_destroyKeys:
  "EvDestroyKeys \<notin> set (snd (snd (prepareRun w t)))"
proof -
  obtain e0 ev0 where r: "prepareRepository w t = (e0, ev0)"
    by (cases "prepareRepository w t") auto
  obtain e1 t1 ev1 where c: "callInstallInventory w t = (e1, t1, ev1)"
    by (cases "callInstallInventory w t") auto
  obtain e2 t2 ev2 where v: "installVaultKeyFile w t1 = (e2, t2, ev2)"
    by (cases "installVaultKeyFile w t1") auto
  from prepareRepository_no_destroyKeys [of w t] r
  have n0: "EvDestroyKeys \<notin> set ev0" by simp
  have n1: "EvDestroyKeys \<notin> set ev1"
    using c by (auto simp: callInstallInventory_def Let_def)
  have n2: "EvDestroyKeys \<notin> set ev2"
    using v by (auto simp: installVaultKeyFile_def split: if_splits prod.splits)
  show ?thesis
    by (cases "checkTmpDir w (TmpPath w)"; cases e0; cases e1;
        cases "InstallRequirements w"; cases e2)
      (simp_all add: prepareRun_def Let_def r c v n0 n1 n2)
qed

lemma Run_destroyKeys_once_after_prepareRun:
  assumes "prepareRun w t = (None, t', ev)"
  shows "\<exists>r t'' ev'.
           Run w t username incomingVersion =
             (r, t'', EvSetStatus TaskRunningStatus # ev @ ev' @ [EvDestroyKeys])
         \<and> count_list (snd (snd (Run w t username incomingVersion))) EvDestroyKeys = 1"
proof -
  obtain r t'' ev' where a: "runApp w t' username incomingVersion = (r, t'', ev')"
    by (cases "runApp w t' username incomingVersion") auto
  from runApp_no_destroyKeys [of w t' username incomingVersion] a
  have n1: "count_list ev' EvDestroyKeys = 0" by simp
  from prepareRun_no_destroyKeys [of w t] assms
  have n2: "count_list ev EvDestroyKeys = 0" by simp
  from assms a n1 n2 show ?thesis
    by (simp add: Run_def)
qed

end
